theory Spec2Isabelle
  imports Main
begin

section \<open>Values of the program\<close>

text \<open>
  The Python module \<^verbatim>\<open>parsel/selector.py\<close> wraps three libraries (lxml, cssselect and
  jmespath) behind the classes \<^verbatim>\<open>Selector\<close> and \<^verbatim>\<open>SelectorList\<close>. This theory embeds the
  code of that module; the libraries are parameters of the embedding (record \<open>collab\<close>
  below).

  A Python 3 \<^verbatim>\<open>str\<close> is a sequence of Unicode code points: \<^verbatim>\<open>str.strip\<close> and
  \<^verbatim>\<open>str.encode\<close> work on code points, so text is a list of code points and a byte
  string is a list of byte values. \<open>U\<close> reads an ASCII literal as such a list.
\<close>

type_synonym ustr = "nat list"
type_synonym bytes = "nat list"
type_synonym node = nat

definition U :: "string \<Rightarrow> ustr" where
  "U s = map of_char s"

text \<open>Floating-point numbers are carried around by the module and never inspected.\<close>

typedecl pyfloat

text \<open>
  What the attribute \<^verbatim>\<open>root\<close> of a selector can hold, and what the arguments
  \<^verbatim>\<open>text\<close> and \<^verbatim>\<open>root\<close> of the constructor can be: an lxml element (a handle into the
  document store), a string, raw bytes, a JSON-like value, or \<^verbatim>\<open>None\<close>. \<open>PSmartStr t p\<close> is
  an lxml smart string: an instance of \<^verbatim>\<open>str\<close> with the characters \<open>t\<close> and a method
  \<^verbatim>\<open>getparent()\<close> that returns the element \<open>p\<close> the text was read from, or \<^verbatim>\<open>None\<close>. The
  module asks lxml for plain strings (\<^verbatim>\<open>_lxml_smart_strings = False\<close>), so a smart string
  reaches a selector only as an argument of the constructor, or when a subclass sets the
  switch.
\<close>

datatype pyval =
    Elem node
  | PStr ustr
  | PSmartStr ustr "node option"
  | PBytes bytes
  | PBool bool
  | PInt int
  | PFloat pyfloat
  | PNone
  | PList "pyval list"
  | PDict "(ustr \<times> pyval) list"

datatype kind = Html | Json | Text | Xml

datatype error =
    ValueError
  | TypeError
  | AttributeError
  | UnicodeEncodeError
  | XPathError
  | SelectorError
  | JMESPathError
  | RecursionError
  | CannotRemoveElementWithoutRoot
  | CannotRemoveElementWithoutParent
  | NotModelled

text \<open>
  The libraries the module calls. \<open>parser k base_url body\<close> is
  \<^verbatim>\<open>etree.fromstring(body, parser=_ctgroup[k]['_parser'](recover=True, encoding='utf8'),
  base_url=base_url)\<close>, which yields a root element or \<^verbatim>\<open>None\<close>; \<open>tostring n k\<close> is
  \<^verbatim>\<open>etree.tostring(n, method=k, encoding='unicode', with_tail=False)\<close> on an element;
  \<open>node_text n\<close> is the attribute \<^verbatim>\<open>n.text\<close>; \<open>xpath_eval n query nsp kwargs\<close> is
  \<^verbatim>\<open>n.xpath(query, namespaces=nsp, smart_strings=False, **kwargs)\<close>, whose failure
  \<^verbatim>\<open>etree.XPathError\<close> is \<open>Inl XPathError\<close>; \<open>css_to_xpath k\<close> is the method
  \<^verbatim>\<open>css_to_xpath\<close> of the translator \<^verbatim>\<open>_ctgroup[k]['_csstranslator']\<close> (the translators
  are defined in \<^verbatim>\<open>parsel/csstranslator.py\<close>); \<open>json_loads\<close> is \<^verbatim>\<open>json.loads\<close> on a
  string, which raises \<^verbatim>\<open>ValueError\<close> on a text that is not JSON and may raise something
  else (\<^verbatim>\<open>RecursionError\<close> on a deeply nested text); \<open>jmespath_search\<close> is
  \<^verbatim>\<open>jmespath.search\<close> (with the caller's keyword options); \<open>text_type\<close> is
  \<^verbatim>\<open>six.text_type\<close>, Python's \<^verbatim>\<open>str()\<close>.
\<close>

record collab =
  parser :: "kind \<Rightarrow> ustr option \<Rightarrow> bytes \<Rightarrow> node option"
  tostring :: "node \<Rightarrow> kind \<Rightarrow> ustr"
  node_text :: "node \<Rightarrow> ustr option"
  xpath_eval :: "node \<Rightarrow> ustr \<Rightarrow> (ustr \<rightharpoonup> ustr) \<Rightarrow> (ustr \<times> pyval) list \<Rightarrow> error + pyval"
  css_to_xpath :: "kind \<Rightarrow> ustr \<Rightarrow> error + ustr"
  json_loads :: "ustr \<Rightarrow> error + pyval"
  jmespath_search :: "ustr \<Rightarrow> pyval \<Rightarrow> error + pyval"
  text_type :: "pyval \<Rightarrow> ustr"

text \<open>
  The slots of class \<^verbatim>\<open>Selector\<close>. \<open>type\<close> is one of the four strings the
  constructor accepts; \<open>expr\<close> is \<^verbatim>\<open>_expr\<close> and \<open>raw_text\<close> is \<^verbatim>\<open>_text\<close>.
\<close>

record selector =
  namespaces :: "ustr \<rightharpoonup> ustr"
  type :: kind
  expr :: "ustr option"
  root :: pyval
  raw_text :: "ustr option"

text \<open>
  \<^verbatim>\<open>isinstance(v, six.text_type)\<close>, with the characters of \<open>v\<close> when it holds: a smart
  string is a string.
\<close>

definition str_value :: "pyval \<Rightarrow> ustr option" where
  "str_value v = (case v of PStr t \<Rightarrow> Some t | PSmartStr t p \<Rightarrow> Some t | _ \<Rightarrow> None)"

section \<open>Strings: strip, replace, encode\<close>

text \<open>The code points for which \<^verbatim>\<open>str.isspace\<close> holds; \<^verbatim>\<open>str.strip()\<close> removes them at both ends.\<close>

definition isspace :: "nat \<Rightarrow> bool" where
  "isspace c =
     ((9 \<le> c \<and> c \<le> 13) \<or> (28 \<le> c \<and> c \<le> 32) \<or> c = 133 \<or> c = 160 \<or> c = 5760
      \<or> (8192 \<le> c \<and> c \<le> 8202) \<or> c = 8232 \<or> c = 8233 \<or> c = 8239 \<or> c = 8287
      \<or> c = 12288)"

definition strip :: "ustr \<Rightarrow> ustr" where
  "strip s = rev (dropWhile isspace (rev (dropWhile isspace s)))"

text \<open>\<^verbatim>\<open>s.replace('\x00', '')\<close>\<close>

definition replace_nul :: "ustr \<Rightarrow> ustr" where
  "replace_nul s = filter (\<lambda>c. c \<noteq> 0) s"

text \<open>
  \<^verbatim>\<open>s.encode('utf8')\<close>: Python 3 raises \<^verbatim>\<open>UnicodeEncodeError\<close> on a surrogate code point
  (U+D800 to U+DFFF), which a \<^verbatim>\<open>str\<close> may hold.
\<close>

definition is_surrogate :: "nat \<Rightarrow> bool" where
  "is_surrogate c = (55296 \<le> c \<and> c \<le> 57343)"

definition utf8_char :: "nat \<Rightarrow> bytes" where
  "utf8_char c =
     (if c < 128 then [c]
      else if c < 2048 then [192 + c div 64, 128 + c mod 64]
      else if c < 65536 then [224 + c div 4096, 128 + (c div 64) mod 64, 128 + c mod 64]
      else [240 + c div 262144, 128 + (c div 4096) mod 64, 128 + (c div 64) mod 64,
            128 + c mod 64])"

definition encode_utf8 :: "ustr \<Rightarrow> error + bytes" where
  "encode_utf8 s =
     (if list_ex is_surrogate s then Inl UnicodeEncodeError
      else Inr (concat (map utf8_char s)))"

section \<open>The root materializer\<close>

definition html_stub :: bytes where
  "html_stub = U ''<html/>''"

text \<open>
  The bytes \<^verbatim>\<open>create_root_node\<close> hands to the parser:
  \<^verbatim>\<open>text.strip().replace('\x00', '').encode('utf8') or b'<html/>'\<close>.
\<close>

definition root_body :: "ustr \<Rightarrow> error + bytes" where
  "root_body text =
     (case encode_utf8 (replace_nul (strip text)) of
        Inl e \<Rightarrow> Inl e
      | Inr b \<Rightarrow> Inr (if b = [] then html_stub else b))"

text \<open>
  \<^verbatim>\<open>create_root_node(text, parser_cls, base_url)\<close>; \<open>parser_cls\<close> is the parser class,
  already applied to \<^verbatim>\<open>recover=True, encoding='utf8'\<close>. The result is the root element,
  or \<^verbatim>\<open>None\<close> when the parser yields no root for the stand-in either.
\<close>

definition create_root_node ::
  "ustr \<Rightarrow> (ustr option \<Rightarrow> bytes \<Rightarrow> node option) \<Rightarrow> ustr option \<Rightarrow> error + pyval" where
  "create_root_node text parser_cls base_url =
     (case root_body text of
        Inl e \<Rightarrow> Inl e
      | Inr body \<Rightarrow>
          (case parser_cls base_url body of
             Some n \<Rightarrow> Inr (Elem n)
           | None \<Rightarrow>
               (case parser_cls base_url html_stub of
                  Some n \<Rightarrow> Inr (Elem n)
                | None \<Rightarrow> Inr PNone)))"

section \<open>Selector: construction\<close>

definition default_namespaces :: "ustr \<rightharpoonup> ustr" where
  "default_namespaces =
     [U ''re'' \<mapsto> U ''http://exslt.org/regular-expressions'',
      U ''set'' \<mapsto> U ''http://exslt.org/sets'']"

text \<open>The strings the argument \<^verbatim>\<open>type\<close> may be.\<close>

definition kind_of :: "ustr \<Rightarrow> kind option" where
  "kind_of t =
     (if t = U ''html'' then Some Html
      else if t = U ''json'' then Some Json
      else if t = U ''text'' then Some Text
      else if t = U ''xml'' then Some Xml
      else None)"

text \<open>\<^verbatim>\<open>if type not in ('html', 'json', 'text', 'xml', None): raise ValueError\<close>\<close>

definition check_type :: "ustr option \<Rightarrow> error + kind option" where
  "check_type ty =
     (case ty of
        None \<Rightarrow> Inr None
      | Some t \<Rightarrow> (case kind_of t of None \<Rightarrow> Inl ValueError | Some k \<Rightarrow> Inr (Some k)))"

text \<open>
  \<^verbatim>\<open>_load_json_or_none\<close>. Its argument is a string or \<^verbatim>\<open>None\<close> at every call of the
  module; \<^verbatim>\<open>json.loads(None)\<close> raises \<^verbatim>\<open>TypeError\<close>. The function catches \<^verbatim>\<open>ValueError\<close>
  and nothing else.
\<close>

definition load_json_or_none :: "collab \<Rightarrow> ustr option \<Rightarrow> error + pyval" where
  "load_json_or_none env text =
     (case text of
        None \<Rightarrow> Inl TypeError
      | Some t \<Rightarrow>
          (case json_loads env t of
             Inl e \<Rightarrow> if e = ValueError then Inr PNone else Inl e
           | Inr v \<Rightarrow> Inr v))"

text \<open>\<^verbatim>\<open>_get_root\<close> with \<^verbatim>\<open>self.type = k\<close>.\<close>

definition get_root :: "collab \<Rightarrow> kind \<Rightarrow> ustr \<Rightarrow> ustr option \<Rightarrow> error + pyval" where
  "get_root env k text base_url = create_root_node text (parser env k) base_url"

text \<open>
  The branch of \<^verbatim>\<open>__init__\<close> that sets \<^verbatim>\<open>self.root\<close> and \<^verbatim>\<open>self.type\<close>, once the
  arguments have passed the three checks: \<open>text\<close> is a string or \<^verbatim>\<open>None\<close>, \<open>ty\<close> the
  checked \<^verbatim>\<open>type\<close>, \<open>root_arg\<close> is \<open>None\<close> for the sentinel \<^verbatim>\<open>_NOTSET\<close>. For the type
  text, \<^verbatim>\<open>self.root\<close> is the argument \<^verbatim>\<open>text\<close> itself.
\<close>

definition init_document ::
  "collab \<Rightarrow> pyval \<Rightarrow> kind option \<Rightarrow> pyval option \<Rightarrow> ustr option \<Rightarrow> error + kind \<times> pyval" where
  "init_document env text ty root_arg base_url =
     (case str_value text of
        Some t \<Rightarrow>
          (case ty of
             Some Json \<Rightarrow>
               (case load_json_or_none env (Some t) of
                  Inl e \<Rightarrow> Inl e
                | Inr r \<Rightarrow> Inr (Json, r))
           | Some Text \<Rightarrow> Inr (Text, text)
           | _ \<Rightarrow>
               (let k = (case ty of None \<Rightarrow> Html | Some k \<Rightarrow> k) in
                  case get_root env k t base_url of
                    Inl e \<Rightarrow> Inl e
                  | Inr r \<Rightarrow> Inr (k, r)))
      | None \<Rightarrow>
          (case root_arg of
             None \<Rightarrow> Inl ValueError
           | Some r \<Rightarrow>
               Inr (case ty of
                      Some k \<Rightarrow> k
                    | None \<Rightarrow> (case r of Elem n \<Rightarrow> Html | _ \<Rightarrow> Json), r)))"

text \<open>
  \<^verbatim>\<open>Selector.__init__(text, type, namespaces, root, base_url, _expr)\<close>. \<open>text\<close> is any
  Python value, \<open>PNone\<close> when it is not given. The three checks come in the order of the
  source: the type, the presence of text or root, the class of the text.
\<close>

definition Selector_init ::
  "collab \<Rightarrow> pyval \<Rightarrow> ustr option \<Rightarrow> (ustr \<rightharpoonup> ustr) option \<Rightarrow> pyval option \<Rightarrow> ustr option
     \<Rightarrow> ustr option \<Rightarrow> error + selector" where
  "Selector_init env text ty nss root_arg base_url expr_arg =
     (case check_type ty of
        Inl e \<Rightarrow> Inl e
      | Inr k \<Rightarrow>
          if text = PNone \<and> root_arg = None then Inl ValueError
          else if text \<noteq> PNone \<and> str_value text = None then Inl TypeError
          else
            (case init_document env text k root_arg base_url of
               Inl e \<Rightarrow> Inl e
             | Inr (k', r') \<Rightarrow>
                 Inr \<lparr>namespaces =
                        default_namespaces ++ (case nss of None \<Rightarrow> Map.empty | Some m \<Rightarrow> m),
                      type = k', expr = expr_arg, root = r', raw_text = str_value text\<rparr>))"

section \<open>Selector: extraction\<close>

text \<open>
  \<^verbatim>\<open>Selector.get\<close>. \<^verbatim>\<open>etree.tostring\<close> raises \<^verbatim>\<open>TypeError\<close> on anything but an element,
  which the method catches.
\<close>

definition get :: "collab \<Rightarrow> selector \<Rightarrow> pyval" where
  "get env s =
     (if type s = Text \<or> type s = Json then root s
      else
        (case root s of
           Elem n \<Rightarrow> PStr (tostring env n (type s))
         | PBool b \<Rightarrow> PStr (if b then U ''1'' else U ''0'')
         | v \<Rightarrow> PStr (text_type env v)))"

definition getall :: "collab \<Rightarrow> selector \<Rightarrow> pyval list" where
  "getall env s = [get env s]"

section \<open>Selector: queries\<close>

text \<open>The comprehension \<^verbatim>\<open>[f(x) for x in result]\<close>: the first exception ends it.\<close>

fun collect :: "(error + 'a) list \<Rightarrow> error + 'a list" where
  "collect [] = Inr []"
| "collect (x # xs) =
     (case x of
        Inl e \<Rightarrow> Inl e
      | Inr v \<Rightarrow> (case collect xs of Inl e \<Rightarrow> Inl e | Inr vs \<Rightarrow> Inr (v # vs)))"

definition type_name :: "kind \<Rightarrow> ustr" where
  "type_name k =
     (case k of Html \<Rightarrow> U ''html'' | Json \<Rightarrow> U ''json'' | Text \<Rightarrow> U ''text'' | Xml \<Rightarrow> U ''xml'')"

text \<open>
  \<^verbatim>\<open>_load_lxml_root(text, type, base_url)\<close> on an existing selector. It assigns
  \<^verbatim>\<open>self.type\<close> before it builds the root, so the new type stays when building raises.
  \<open>text\<close> is \<^verbatim>\<open>self.root\<close> at the calls in \<^verbatim>\<open>xpath\<close> and \<^verbatim>\<open>css\<close>: a value without
  \<^verbatim>\<open>strip\<close> raises \<^verbatim>\<open>AttributeError\<close>, and bytes raise \<^verbatim>\<open>TypeError\<close> in \<^verbatim>\<open>replace\<close>.
\<close>

definition load_lxml_root ::
  "collab \<Rightarrow> selector \<Rightarrow> pyval \<Rightarrow> kind \<Rightarrow> ustr option \<Rightarrow> selector \<times> error option" where
  "load_lxml_root env s text k base_url =
     (let s1 = s\<lparr>type := k\<rparr> in
        case str_value text of
          Some t \<Rightarrow>
            (case get_root env k t base_url of
               Inl e \<Rightarrow> (s1, Some e)
             | Inr r \<Rightarrow> (s1\<lparr>root := r\<rparr>, None))
        | None \<Rightarrow>
            (case text of
               PBytes b \<Rightarrow> (s1, Some TypeError)
             | _ \<Rightarrow> (s1, Some AttributeError)))"

text \<open>The value \<^verbatim>\<open>Selector.jmespath\<close> queries.\<close>

definition jmespath_data :: "collab \<Rightarrow> selector \<Rightarrow> error + pyval" where
  "jmespath_data env s =
     (if type s = Json then Inr (root s)
      else
        (case str_value (root s) of
           Some t \<Rightarrow> load_json_or_none env (Some t)
         | None \<Rightarrow>
             (case root s of
                Elem n \<Rightarrow>
                  (case node_text env n of
                     None \<Rightarrow> load_json_or_none env (raw_text s)
                   | Some t \<Rightarrow> load_json_or_none env (Some t))
              | _ \<Rightarrow> Inl AttributeError)))"

text \<open>
  The closure \<^verbatim>\<open>make_selector\<close> of \<^verbatim>\<open>Selector.jmespath\<close>; \<open>ty\<close> is the argument
  \<^verbatim>\<open>type\<close> of the call. \<^verbatim>\<open>type or 'text'\<close> is \<^verbatim>\<open>'text'\<close> for \<^verbatim>\<open>None\<close> and for the empty
  string.
\<close>

definition make_selector :: "collab \<Rightarrow> ustr \<Rightarrow> ustr option \<Rightarrow> pyval \<Rightarrow> error + selector" where
  "make_selector env query ty x =
     (case str_value x of
        Some t \<Rightarrow>
          Selector_init env x
            (Some (case ty of None \<Rightarrow> U ''text'' | Some n \<Rightarrow> if n = [] then U ''text'' else n))
            None None None (Some query)
      | None \<Rightarrow> Selector_init env PNone ty None (Some x) None (Some query))"

text \<open>The list \<^verbatim>\<open>Selector.jmespath\<close> makes of the evaluator's result.\<close>

definition jmespath_items :: "pyval \<Rightarrow> pyval list" where
  "jmespath_items result = (case result of PNone \<Rightarrow> [] | PList xs \<Rightarrow> xs | v \<Rightarrow> [v])"

definition jmespath :: "collab \<Rightarrow> selector \<Rightarrow> ustr \<Rightarrow> ustr option \<Rightarrow> error + selector list" where
  "jmespath env s query ty =
     (case jmespath_data env s of
        Inl e \<Rightarrow> Inl e
      | Inr data \<Rightarrow>
          (case jmespath_search env query data of
             Inl e \<Rightarrow> Inl e
           | Inr result \<Rightarrow> collect (map (make_selector env query ty) (jmespath_items result))))"

text \<open>
  \<^verbatim>\<open>Selector.xpath(query, namespaces, **kwargs)\<close>. The method may change \<^verbatim>\<open>self\<close> (a
  selector of type text becomes one of type html), so the selector is returned with the
  outcome.
\<close>

definition xpath ::
  "collab \<Rightarrow> selector \<Rightarrow> ustr \<Rightarrow> (ustr \<rightharpoonup> ustr) option \<Rightarrow> (ustr \<times> pyval) list
     \<Rightarrow> selector \<times> (error + selector list)" where
  "xpath env s query nss kwargs =
     (case (if type s = Text then load_lxml_root env s (root s) Html None
            else if type s \<noteq> Html \<and> type s \<noteq> Xml then (s, Some ValueError)
            else (s, None)) of
        (s1, Some e) \<Rightarrow> (s1, Inl e)
      | (s1, None) \<Rightarrow>
          (case root s1 of
             Elem n \<Rightarrow>
               (case xpath_eval env n query
                       (namespaces s1 ++ (case nss of None \<Rightarrow> Map.empty | Some m \<Rightarrow> m)) kwargs of
                  Inl e \<Rightarrow> (s1, Inl (if e = XPathError then ValueError else e))
                | Inr result \<Rightarrow>
                    (s1,
                     collect
                       (map (\<lambda>x. Selector_init env PNone (Some (type_name (type s1)))
                                   (Some (namespaces s1)) (Some x) None (Some query))
                          (case result of PList xs \<Rightarrow> xs | v \<Rightarrow> [v]))))
           | _ \<Rightarrow> (s1, Inr [])))"

text \<open>\<^verbatim>\<open>Selector.css(query)\<close>, with \<^verbatim>\<open>_css2xpath\<close> unfolded.\<close>

definition css :: "collab \<Rightarrow> selector \<Rightarrow> ustr \<Rightarrow> selector \<times> (error + selector list)" where
  "css env s query =
     (case (if type s = Text then load_lxml_root env s (root s) Html None
            else if type s \<noteq> Html \<and> type s \<noteq> Xml then (s, Some ValueError)
            else (s, None)) of
        (s1, Some e) \<Rightarrow> (s1, Inl e)
      | (s1, None) \<Rightarrow>
          (case css_to_xpath env (type s1) query of
             Inl e \<Rightarrow> (s1, Inl e)
           | Inr x \<Rightarrow> xpath env s1 x None []))"

definition register_namespace :: "selector \<Rightarrow> ustr \<Rightarrow> ustr \<Rightarrow> selector" where
  "register_namespace s prefix uri = s\<lparr>namespaces := (namespaces s)(prefix \<mapsto> uri)\<rparr>"

text \<open>
  What the specification says of \<^verbatim>\<open>css\<close>: the kind rule of \<^verbatim>\<open>xpath\<close> (a selector of kind
  text is reinterpreted as html, any kind but html and xml is refused), the translation
  by the translator of the kind, and \<^verbatim>\<open>xpath\<close> on the translated expression.
\<close>

definition kind_rule :: "collab \<Rightarrow> selector \<Rightarrow> selector \<times> error option" where
  "kind_rule env s =
     (case type s of
        Text \<Rightarrow> load_lxml_root env s (root s) Html None
      | Json \<Rightarrow> (s, Some ValueError)
      | _ \<Rightarrow> (s, None))"

definition css_spec :: "collab \<Rightarrow> selector \<Rightarrow> ustr \<Rightarrow> selector \<times> (error + selector list)" where
  "css_spec env s query =
     (case kind_rule env s of
        (s1, Some e) \<Rightarrow> (s1, Inl e)
      | (s1, None) \<Rightarrow>
          (case css_to_xpath env (case type s of Xml \<Rightarrow> Xml | _ \<Rightarrow> Html) query of
             Inl e \<Rightarrow> (s1, Inl e)
           | Inr x \<Rightarrow> xpath env s x None []))"

section \<open>Selector: removal\<close>

text \<open>
  The document store: every element has a parent pointer and a list of children.
  \<^verbatim>\<open>getparent\<close> reads the pointer; \<^verbatim>\<open>parent.remove(child)\<close> of lxml raises \<^verbatim>\<open>ValueError\<close>
  when \<open>child\<close> is not a child of \<open>parent\<close>, and otherwise unlinks it.
\<close>

record tree =
  parent_of :: "node \<Rightarrow> node option"
  children_of :: "node \<Rightarrow> node list"

definition getparent :: "tree \<Rightarrow> node \<Rightarrow> node option" where
  "getparent t n = parent_of t n"

definition element_remove :: "tree \<Rightarrow> node \<Rightarrow> node \<Rightarrow> error + tree" where
  "element_remove t p c =
     (if parent_of t c = Some p
      then Inr (t\<lparr>parent_of := (parent_of t)(c := None),
                  children_of := (children_of t)(p := removeAll c (children_of t p))\<rparr>)
      else Inl ValueError)"

text \<open>
  \<^verbatim>\<open>Selector.remove()\<close>: the first \<^verbatim>\<open>AttributeError\<close> is that of a root without
  \<^verbatim>\<open>getparent\<close>, the second that of the parent \<^verbatim>\<open>None\<close>. A smart string has
  \<^verbatim>\<open>getparent\<close>; when its parent is an element, \<^verbatim>\<open>parent.remove\<close> refuses the string with a
  \<^verbatim>\<open>TypeError\<close>, which the method does not catch.
\<close>

definition Selector_remove :: "tree \<Rightarrow> selector \<Rightarrow> error + tree" where
  "Selector_remove t s =
     (case root s of
        Elem n \<Rightarrow>
          (case getparent t n of
             None \<Rightarrow> Inl CannotRemoveElementWithoutParent
           | Some p \<Rightarrow> element_remove t p n)
      | PSmartStr x parent \<Rightarrow>
          (case parent of
             None \<Rightarrow> Inl CannotRemoveElementWithoutParent
           | Some p \<Rightarrow> Inl TypeError)
      | _ \<Rightarrow> Inl CannotRemoveElementWithoutRoot)"

section \<open>SelectorList\<close>

definition SelectorList_getall :: "collab \<Rightarrow> selector list \<Rightarrow> pyval list" where
  "SelectorList_getall env l = map (get env) l"

definition SelectorList_get :: "collab \<Rightarrow> selector list \<Rightarrow> pyval \<Rightarrow> pyval" where
  "SelectorList_get env l dflt = (case l of [] \<Rightarrow> dflt | x # xs \<Rightarrow> get env x)"

section \<open>An instance of the libraries\<close>

text \<open>
  The theorems below hold for every instance of \<open>collab\<close>. To evaluate the module on
  concrete inputs, \<open>example_env\<close> is one instance: it stands for the libraries on the
  inputs the examples give it and answers \<open>NotModelled\<close> where it does not follow them.

  \<open>jmespath_fragment\<close> follows \<^verbatim>\<open>jmespath.search\<close> on two forms of expression: a JSON
  integer literal between backquotes, whose value does not depend on the data, and
  identifiers joined by dots, where a field of anything but an object, and a field an
  object does not have, is \<^verbatim>\<open>null\<close>.
\<close>

fun split_on :: "nat \<Rightarrow> ustr \<Rightarrow> ustr list" where
  "split_on d [] = [[]]"
| "split_on d (c # cs) =
     (if c = d then [] # split_on d cs
      else (case split_on d cs of [] \<Rightarrow> [[c]] | w # ws \<Rightarrow> (c # w) # ws))"

definition is_digit :: "nat \<Rightarrow> bool" where
  "is_digit c = (48 \<le> c \<and> c \<le> 57)"

definition is_letter :: "nat \<Rightarrow> bool" where
  "is_letter c = ((65 \<le> c \<and> c \<le> 90) \<or> (97 \<le> c \<and> c \<le> 122) \<or> c = 95)"

definition is_identifier :: "ustr \<Rightarrow> bool" where
  "is_identifier w =
     (case w of
        [] \<Rightarrow> False
      | c # cs \<Rightarrow> is_letter c \<and> list_all (\<lambda>x. is_letter x \<or> is_digit x) cs)"

definition is_json_int :: "ustr \<Rightarrow> bool" where
  "is_json_int ds =
     (list_all is_digit ds \<and> (case ds of [] \<Rightarrow> False | [d] \<Rightarrow> True | d # r \<Rightarrow> d \<noteq> 48))"

definition int_of_digits :: "ustr \<Rightarrow> int" where
  "int_of_digits ds = foldl (\<lambda>a c. 10 * a + (int c - 48)) 0 ds"

definition backquoted :: "ustr \<Rightarrow> ustr option" where
  "backquoted q =
     (case q of
        [] \<Rightarrow> None
      | c # cs \<Rightarrow> if c = 96 \<and> cs \<noteq> [] \<and> last cs = 96 then Some (butlast cs) else None)"

fun lookup_path :: "ustr list \<Rightarrow> pyval \<Rightarrow> pyval" where
  "lookup_path [] v = v"
| "lookup_path (k # ks) v =
     (case v of
        PDict kvs \<Rightarrow> (case map_of kvs k of None \<Rightarrow> PNone | Some w \<Rightarrow> lookup_path ks w)
      | _ \<Rightarrow> PNone)"

definition jmespath_fragment :: "ustr \<Rightarrow> pyval \<Rightarrow> error + pyval" where
  "jmespath_fragment q data =
     (case backquoted q of
        Some ds \<Rightarrow> if is_json_int ds then Inr (PInt (int_of_digits ds)) else Inl NotModelled
      | None \<Rightarrow>
          if list_all is_identifier (split_on 46 q) then Inr (lookup_path (split_on 46 q) data)
          else Inl NotModelled)"

text \<open>
  \<open>json_loads_fragment\<close> follows \<^verbatim>\<open>json.loads\<close> on \<^verbatim>\<open>null\<close>, on the decimal integers, on
  a thousand opening brackets (\<open>deep_json\<close>, on which the parser exceeds the recursion
  limit), and on three kinds of text that are not JSON: the empty text, a lone opening
  brace, and a text whose first character can start no JSON value.
\<close>

definition deep_json :: ustr where
  "deep_json = replicate 1000 91"

definition json_start :: "nat \<Rightarrow> bool" where
  "json_start c =
     (c = 32 \<or> c = 9 \<or> c = 10 \<or> c = 13 \<or> c = 123 \<or> c = 91 \<or> c = 34 \<or> c = 45 \<or> is_digit c
      \<or> c = 116 \<or> c = 102 \<or> c = 110 \<or> c = 78 \<or> c = 73)"

definition json_loads_fragment :: "ustr \<Rightarrow> error + pyval" where
  "json_loads_fragment t =
     (if t = deep_json then Inl RecursionError
      else if t = U ''null'' then Inr PNone
      else if is_json_int t then Inr (PInt (int_of_digits t))
      else if t = [] \<or> t = [123] then Inl ValueError
      else if json_start (hd t) then Inl NotModelled
      else Inl ValueError)"

text \<open>
  \<open>css_fragment\<close> follows both translators on a type selector in lower-case letters,
  and on the empty selector, which they refuse.
\<close>

definition css_fragment :: "kind \<Rightarrow> ustr \<Rightarrow> error + ustr" where
  "css_fragment k q =
     (if q = [] then Inl SelectorError
      else if list_all (\<lambda>c. 97 \<le> c \<and> c \<le> 122) q then Inr (U ''descendant-or-self::'' @ q)
      else Inl NotModelled)"

definition str_fragment :: "pyval \<Rightarrow> ustr" where
  "str_fragment v =
     (case v of
        PStr t \<Rightarrow> t
      | PSmartStr t p \<Rightarrow> t
      | PNone \<Rightarrow> U ''None''
      | PBool b \<Rightarrow> (if b then U ''True'' else U ''False'')
      | _ \<Rightarrow> U ''<object>'')"

text \<open>
  In \<open>example_env\<close> every document parses to the element 0, which has no text and
  serializes to \<^verbatim>\<open><html></html>\<close>, and every XPath query selects the elements 1 and 2.
\<close>

definition example_env :: collab where
  "example_env =
     \<lparr>parser = (\<lambda>k base_url body. Some 0),
      tostring = (\<lambda>n k. U ''<html></html>''),
      node_text = (\<lambda>n. None),
      xpath_eval = (\<lambda>n query nsp kwargs. Inr (PList [Elem 1, Elem 2])),
      css_to_xpath = css_fragment,
      json_loads = json_loads_fragment,
      jmespath_search = jmespath_fragment,
      text_type = str_fragment\<rparr>"

text \<open>A document of three elements: 0 is the root, 1 and 2 are its children.\<close>

definition example_tree :: tree where
  "example_tree =
     \<lparr>parent_of = (\<lambda>n. if n = 1 \<or> n = 2 then Some 0 else None),
      children_of = (\<lambda>n. if n = 0 then [1, 2] else [])\<rparr>"

text \<open>What \<^verbatim>\<open>xpath\<close> returns once the kind rule has passed, \<open>nsp\<close> being the merged
  namespaces and every result already constructed.\<close>

definition xpath_results ::
  "collab \<Rightarrow> selector \<Rightarrow> ustr \<Rightarrow> (ustr \<rightharpoonup> ustr) \<Rightarrow> (ustr \<times> pyval) list \<Rightarrow> error + selector list" where
  "xpath_results env s query nsp kwargs =
     (case root s of
        Elem n \<Rightarrow>
          (case xpath_eval env n query nsp kwargs of
             Inl e \<Rightarrow> Inl (if e = XPathError then ValueError else e)
           | Inr result \<Rightarrow>
               Inr (map (\<lambda>x. \<lparr>namespaces = default_namespaces ++ namespaces s, type = type s,
                              expr = Some query, root = x, raw_text = None\<rparr>)
                      (case result of PList xs \<Rightarrow> xs | v \<Rightarrow> [v])))
      | _ \<Rightarrow> Inr [])"

text \<open>
  The constructor seeds every registry with the two built-in prefixes, and no method
  removes a prefix.
\<close>

definition has_default_prefixes :: "selector \<Rightarrow> bool" where
  "has_default_prefixes s =
     (namespaces s (U ''re'') \<noteq> None \<and> namespaces s (U ''set'') \<noteq> None)"

text \<open>The selector \<^verbatim>\<open>Selector(root=r, type=k)\<close> builds.\<close>

definition selector_of :: "kind \<Rightarrow> pyval \<Rightarrow> selector" where
  "selector_of k r =
     \<lparr>namespaces = default_namespaces, type = k, expr = None, root = r, raw_text = None\<rparr>"

section \<open>Properties of SelectorList\<close>

text \<open>
  Claim C8. \<^verbatim>\<open>SelectorList.getall\<close> is the list of \<^verbatim>\<open>get()\<close> of the elements, in order, so
  it is as long as the list; \<^verbatim>\<open>SelectorList.get(default)\<close> is the first element of that
  list when there is one, and the default otherwise.
\<close>

theorem selectorlist_getall_get:
  "SelectorList_getall env l = map (get env) l
   \<and> length (SelectorList_getall env l) = length l
   \<and> SelectorList_get env l d = (case SelectorList_getall env l of [] \<Rightarrow> d | v # vs \<Rightarrow> v)"
  by (cases l) (simp_all add: SelectorList_getall_def SelectorList_get_def)

theorem selectorlist_getall_get_witness:
  "SelectorList_getall example_env [selector_of Json (PInt 5), selector_of Html (Elem 0)]
     = [PInt 5, PStr (U ''<html></html>'')]
   \<and> SelectorList_get example_env [selector_of Json (PInt 5), selector_of Html (Elem 0)] PNone
     = PInt 5
   \<and> SelectorList_get example_env [] (PStr (U ''none'')) = PStr (U ''none'')"
  using selectorlist_getall_get
      [of example_env "[selector_of Json (PInt 5), selector_of Html (Elem 0)]" PNone]
    selectorlist_getall_get [of example_env "[]" "PStr (U ''none'')"]
  by (simp add: get_def selector_of_def example_env_def SelectorList_getall_def)

section \<open>Properties of removal\<close>

lemma remove_without_root_iff:
  assumes "\<forall>x p. root s \<noteq> PSmartStr x p"
  shows "Selector_remove t s = Inl CannotRemoveElementWithoutRoot \<longleftrightarrow> (\<forall>n. root s \<noteq> Elem n)"
  using assms
  by (cases "root s")
    (auto simp: Selector_remove_def getparent_def element_remove_def split: option.splits)

lemma remove_without_parent_iff:
  assumes "\<forall>x p. root s \<noteq> PSmartStr x p"
  shows "Selector_remove t s = Inl CannotRemoveElementWithoutParent
     \<longleftrightarrow> (\<exists>n. root s = Elem n \<and> parent_of t n = None)"
  using assms
  by (cases "root s")
    (auto simp: Selector_remove_def getparent_def element_remove_def split: option.splits)

lemma remove_unlinks:
  assumes "root s = Elem n" and "parent_of t n = Some p"
  shows "\<exists>t'. Selector_remove t s = Inr t'
     \<and> children_of t' p = removeAll n (children_of t p)
     \<and> n \<notin> set (children_of t' p)
     \<and> parent_of t' n = None
     \<and> (\<forall>m. m \<noteq> n \<longrightarrow> parent_of t' m = parent_of t m)
     \<and> (\<forall>q. q \<noteq> p \<longrightarrow> children_of t' q = children_of t q)
     \<and> Selector_remove t' s = Inl CannotRemoveElementWithoutParent"
  using assms by (simp add: Selector_remove_def getparent_def element_remove_def)

text \<open>
  Claim C2, as stated, fails on a selector that holds an lxml smart string, which is
  extracted text and not a tree node. The string has \<^verbatim>\<open>getparent()\<close>, so \<^verbatim>\<open>remove()\<close> never
  raises \<^verbatim>\<open>CannotRemoveElementWithoutRoot\<close> for it: with the element 1 as parent it raises
  the \<^verbatim>\<open>TypeError\<close> of \<^verbatim>\<open>parent.remove\<close>, and without a parent it raises
  \<^verbatim>\<open>CannotRemoveElementWithoutParent\<close> although the held value is not the document root.
\<close>

theorem smart_string_remove_counterexample:
  "Selector_remove example_tree (selector_of Html (PSmartStr (U ''x'') (Some 1))) = Inl TypeError
   \<and> Selector_remove example_tree (selector_of Html (PSmartStr (U ''x'') None))
     = Inl CannotRemoveElementWithoutParent"
  by (simp add: Selector_remove_def selector_of_def)

text \<open>
  Claim C2, amended. For a selector whose held value is not an lxml smart string:
  \<^verbatim>\<open>remove()\<close> raises \<^verbatim>\<open>CannotRemoveElementWithoutRoot\<close> exactly when the held value is not
  an element, and \<^verbatim>\<open>CannotRemoveElementWithoutParent\<close> exactly when it is an element
  without a parent. In every other case it succeeds: the element leaves the child list of
  its parent and loses its parent pointer, no other child list and no other parent
  pointer changes (so no element gains a parent), and a second \<^verbatim>\<open>remove()\<close> of the same
  selector raises \<^verbatim>\<open>CannotRemoveElementWithoutParent\<close>.
\<close>

theorem selector_remove_outcomes:
  assumes "\<forall>x p. root s \<noteq> PSmartStr x p"
  shows "(Selector_remove t s = Inl CannotRemoveElementWithoutRoot \<longleftrightarrow> (\<forall>n. root s \<noteq> Elem n))
   \<and> (Selector_remove t s = Inl CannotRemoveElementWithoutParent
        \<longleftrightarrow> (\<exists>n. root s = Elem n \<and> parent_of t n = None))
   \<and> (\<forall>n p. root s = Elem n \<and> parent_of t n = Some p \<longrightarrow>
          (\<exists>t'. Selector_remove t s = Inr t'
             \<and> children_of t' p = removeAll n (children_of t p)
             \<and> n \<notin> set (children_of t' p)
             \<and> parent_of t' n = None
             \<and> (\<forall>m. m \<noteq> n \<longrightarrow> parent_of t' m = parent_of t m)
             \<and> (\<forall>q. q \<noteq> p \<longrightarrow> children_of t' q = children_of t q)
             \<and> Selector_remove t' s = Inl CannotRemoveElementWithoutParent))"
  using remove_without_root_iff [OF assms, of t] remove_without_parent_iff [OF assms, of t]
    remove_unlinks [of s _ t]
  by blast

theorem selector_remove_outcomes_witness:
  "Selector_remove example_tree (selector_of Html (PStr (U ''x''))) = Inl CannotRemoveElementWithoutRoot
   \<and> Selector_remove example_tree (selector_of Html (Elem 0)) = Inl CannotRemoveElementWithoutParent
   \<and> (\<exists>t'. Selector_remove example_tree (selector_of Html (Elem 1)) = Inr t'
         \<and> children_of t' 0 = [2] \<and> parent_of t' 1 = None \<and> parent_of t' 2 = Some 0
         \<and> Selector_remove t' (selector_of Html (Elem 1)) = Inl CannotRemoveElementWithoutParent)"
proof -
  have ns: "\<forall>x p. root (selector_of Html (Elem 1)) \<noteq> PSmartStr x p"
    by (simp add: selector_of_def)
  have a: "Selector_remove example_tree (selector_of Html (PStr (U ''x''))) = Inl CannotRemoveElementWithoutRoot"
    using selector_remove_outcomes [of "selector_of Html (PStr (U ''x''))" example_tree]
    by (simp add: selector_of_def)
  have b: "Selector_remove example_tree (selector_of Html (Elem 0)) = Inl CannotRemoveElementWithoutParent"
    using selector_remove_outcomes [of "selector_of Html (Elem 0)" example_tree]
    by (simp add: selector_of_def example_tree_def)
  have "root (selector_of Html (Elem 1)) = Elem 1 \<and> parent_of example_tree 1 = Some 0"
    by (simp add: selector_of_def example_tree_def)
  then obtain t' where t: "Selector_remove example_tree (selector_of Html (Elem 1)) = Inr t'"
      "children_of t' 0 = removeAll 1 (children_of example_tree 0)"
      "parent_of t' 1 = None" "\<forall>m. m \<noteq> 1 \<longrightarrow> parent_of t' m = parent_of example_tree m"
      "Selector_remove t' (selector_of Html (Elem 1)) = Inl CannotRemoveElementWithoutParent"
    using selector_remove_outcomes [OF ns, of example_tree] by blast
  have "children_of t' 0 = [2]" using t(2) by (simp add: example_tree_def)
  moreover have "parent_of t' 2 = Some 0" using t(4) by (simp add: example_tree_def)
  ultimately show ?thesis using a b t(1,3,5) by blast
qed

section \<open>Properties of the queries on trees\<close>

lemma kind_of_type_name: "kind_of (type_name k) = Some k"
  by (cases k) (simp_all add: kind_of_def type_name_def U_def)

lemma collect_Inr: "collect (map (\<lambda>x. Inr (f x)) xs) = Inr (map f xs)"
  by (induction xs) simp_all

lemma Selector_init_root:
  "Selector_init env PNone (Some (type_name k)) (Some ns) (Some x) None (Some q) =
     Inr \<lparr>namespaces = default_namespaces ++ ns, type = k, expr = Some q, root = x,
          raw_text = None\<rparr>"
  by (simp add: Selector_init_def check_type_def kind_of_type_name init_document_def str_value_def)

lemma load_lxml_root_namespaces:
  "namespaces (fst (load_lxml_root env s v k b)) = namespaces s"
  by (cases v) (simp_all add: load_lxml_root_def str_value_def Let_def split: sum.splits)

lemma load_lxml_root_type:
  "type (fst (load_lxml_root env s v k b)) = k"
  by (cases v) (simp_all add: load_lxml_root_def str_value_def Let_def split: sum.splits)

lemma xpath_tree_kind:
  assumes "type s = Html \<or> type s = Xml"
  shows "xpath env s q nss kw =
     (s, xpath_results env s q (namespaces s ++ (case nss of None \<Rightarrow> Map.empty | Some m \<Rightarrow> m)) kw)"
  using assms
  by (cases "root s")
    (auto simp: xpath_def xpath_results_def Selector_init_root collect_Inr split: sum.splits)

lemma xpath_text_kind:
  assumes "type s = Text"
  shows "xpath env s q nss kw =
     (case load_lxml_root env s (root s) Html None of
        (s1, Some e) \<Rightarrow> (s1, Inl e)
      | (s1, None) \<Rightarrow> xpath env s1 q nss kw)"
proof (cases "load_lxml_root env s (root s) Html None")
  case (Pair s1 r)
  have t: "type s1 = Html" using load_lxml_root_type [of env s "root s" Html None] Pair by simp
  show ?thesis
  proof (cases r)
    case None
    then show ?thesis using Pair t assms by (simp add: xpath_def)
  next
    case (Some e)
    then show ?thesis using Pair assms by (simp add: xpath_def)
  qed
qed

lemma xpath_json_kind: "type s = Json \<Longrightarrow> xpath env s q nss kw = (s, Inl ValueError)"
  by (simp add: xpath_def)

lemma css_tree_kind:
  assumes "type s = Html \<or> type s = Xml"
  shows "css env s q =
     (case css_to_xpath env (type s) q of Inl e \<Rightarrow> (s, Inl e) | Inr x \<Rightarrow> xpath env s x None [])"
  using assms by (auto simp: css_def)

lemma css_text_kind:
  assumes "type s = Text"
  shows "css env s q =
     (case load_lxml_root env s (root s) Html None of
        (s1, Some e) \<Rightarrow> (s1, Inl e)
      | (s1, None) \<Rightarrow>
          (case css_to_xpath env Html q of Inl e \<Rightarrow> (s1, Inl e) | Inr x \<Rightarrow> xpath env s x None []))"
proof (cases "load_lxml_root env s (root s) Html None")
  case (Pair s1 r)
  have t: "type s1 = Html" using load_lxml_root_type [of env s "root s" Html None] Pair by simp
  show ?thesis
  proof (cases r)
    case None
    then show ?thesis using Pair t assms xpath_text_kind [OF assms, of env]
      by (simp add: css_def split: sum.splits)
  next
    case (Some e)
    then show ?thesis using Pair assms by (simp add: css_def)
  qed
qed

lemma css_json_kind: "type s = Json \<Longrightarrow> css env s q = (s, Inl ValueError)"
  by (simp add: css_def)

text \<open>
  Claim C3. \<^verbatim>\<open>css(q)\<close> is what the specification describes (\<open>css_spec\<close>). On a selector
  of kind html or xml it returns the result of \<^verbatim>\<open>xpath\<close> on the translation of \<open>q\<close> by the
  translator of the kind, and a translation failure is the outcome of the call. A
  selector of kind text is first promoted to html: when the promotion succeeds, the
  translator is the HTML one, and the result is again that of \<^verbatim>\<open>xpath\<close> on the
  translation.
\<close>

theorem css_is_xpath_of_translation:
  "css env s q = css_spec env s q
   \<and> (type s = Html \<or> type s = Xml \<longrightarrow>
        css env s q =
          (case css_to_xpath env (type s) q of
             Inl e \<Rightarrow> (s, Inl e)
           | Inr x \<Rightarrow> xpath env s x None []))
   \<and> (type s = Text \<longrightarrow>
        (\<forall>s1. load_lxml_root env s (root s) Html None = (s1, None) \<longrightarrow>
           type s1 = Html
           \<and> css env s q =
               (case css_to_xpath env Html q of
                  Inl e \<Rightarrow> (s1, Inl e)
                | Inr x \<Rightarrow> xpath env s x None [])))"
proof -
  have spec: "css env s q = css_spec env s q"
  proof (cases "type s")
    case Text
    then show ?thesis using css_text_kind [of s env q]
      by (simp add: css_spec_def kind_rule_def split: prod.splits option.splits)
  next
    case Json
    then show ?thesis using css_json_kind [of s env q] by (simp add: css_spec_def kind_rule_def)
  next
    case Html
    then show ?thesis using css_tree_kind [of s env q] by (simp add: css_spec_def kind_rule_def)
  next
    case Xml
    then show ?thesis using css_tree_kind [of s env q] by (simp add: css_spec_def kind_rule_def)
  qed
  have treek: "type s = Html \<or> type s = Xml \<longrightarrow>
        css env s q =
          (case css_to_xpath env (type s) q of
             Inl e \<Rightarrow> (s, Inl e)
           | Inr x \<Rightarrow> xpath env s x None [])"
    using css_tree_kind [of s env q] by blast
  have textk: "type s = Text \<longrightarrow>
        (\<forall>s1. load_lxml_root env s (root s) Html None = (s1, None) \<longrightarrow>
           type s1 = Html
           \<and> css env s q =
               (case css_to_xpath env Html q of
                  Inl e \<Rightarrow> (s1, Inl e)
                | Inr x \<Rightarrow> xpath env s x None []))"
    using css_text_kind [of s env q] load_lxml_root_type [of env s "root s" Html None]
    by auto
  show ?thesis using spec treek textk by blast
qed

lemma example_promotion:
  "load_lxml_root example_env (selector_of Text (PStr (U ''<p/>''))) (PStr (U ''<p/>'')) Html None
     = ((selector_of Text (PStr (U ''<p/>'')))\<lparr>type := Html, root := Elem 0\<rparr>, None)"
  by (simp add: load_lxml_root_def str_value_def get_root_def create_root_node_def root_body_def
      encode_utf8_def strip_def replace_nul_def isspace_def is_surrogate_def utf8_char_def
      html_stub_def U_def example_env_def selector_of_def Let_def)

theorem css_is_xpath_of_translation_witness:
  "css example_env (selector_of Html (Elem 0)) (U ''p'')
     = xpath example_env (selector_of Html (Elem 0)) (U ''descendant-or-self::p'') None []
   \<and> css example_env (selector_of Xml (Elem 0)) [] = (selector_of Xml (Elem 0), Inl SelectorError)
   \<and> css example_env (selector_of Text (PStr (U ''<p/>''))) (U ''p'')
     = xpath example_env (selector_of Text (PStr (U ''<p/>''))) (U ''descendant-or-self::p'') None []"
proof -
  have tr: "css_to_xpath example_env k (U ''p'') = Inr (U ''descendant-or-self::p'')" for k
    by (simp add: example_env_def css_fragment_def U_def)
  have a: "css example_env (selector_of Html (Elem 0)) (U ''p'')
     = xpath example_env (selector_of Html (Elem 0)) (U ''descendant-or-self::p'') None []"
    using css_is_xpath_of_translation
        [of example_env "selector_of Html (Elem 0)" "U ''p''", THEN conjunct2, THEN conjunct1] tr
    by (simp add: selector_of_def)
  have b: "css example_env (selector_of Xml (Elem 0)) [] = (selector_of Xml (Elem 0), Inl SelectorError)"
    using css_is_xpath_of_translation
        [of example_env "selector_of Xml (Elem 0)" "[]", THEN conjunct2, THEN conjunct1]
    by (simp add: selector_of_def example_env_def css_fragment_def)
  have c: "css example_env (selector_of Text (PStr (U ''<p/>''))) (U ''p'')
     = xpath example_env (selector_of Text (PStr (U ''<p/>''))) (U ''descendant-or-self::p'') None []"
    using css_is_xpath_of_translation
        [of example_env "selector_of Text (PStr (U ''<p/>''))" "U ''p''", THEN conjunct2,
         THEN conjunct2]
      tr example_promotion
    by (simp add: selector_of_def)
  show ?thesis using a b c by blast
qed

lemma kind_rule_namespaces: "namespaces (fst (kind_rule env s)) = namespaces s"
  by (cases "type s") (simp_all add: kind_rule_def load_lxml_root_namespaces)

lemma kind_rule_type:
  "kind_rule env s = (s1, None) \<Longrightarrow> type s1 = Html \<or> type s1 = Xml"
  using load_lxml_root_type [of env s "root s" Html None]
  by (cases "type s") (auto simp: kind_rule_def)

lemma xpath_by_kind_rule:
  "xpath env s q nss kw =
     (case kind_rule env s of
        (s1, Some e) \<Rightarrow> (s1, Inl e)
      | (s1, None) \<Rightarrow>
          (s1, xpath_results env s1 q
                 (namespaces s ++ (case nss of None \<Rightarrow> Map.empty | Some m \<Rightarrow> m)) kw))"
proof (cases "type s")
  case Text
  obtain s1 r where p: "load_lxml_root env s (root s) Html None = (s1, r)"
    by (cases "load_lxml_root env s (root s) Html None")
  have t: "type s1 = Html" using load_lxml_root_type [of env s "root s" Html None] p by simp
  have n: "namespaces s1 = namespaces s"
    using load_lxml_root_namespaces [of env s "root s" Html None] p by simp
  show ?thesis
    using Text p n xpath_text_kind [of s env q nss kw] xpath_tree_kind [of s1 env q nss kw] t
    by (cases r) (simp_all add: kind_rule_def)
next
  case Json
  then show ?thesis by (simp add: xpath_json_kind kind_rule_def)
next
  case Html
  then show ?thesis using xpath_tree_kind [of s env q nss kw] by (simp add: kind_rule_def)
next
  case Xml
  then show ?thesis using xpath_tree_kind [of s env q nss kw] by (simp add: kind_rule_def)
qed

lemma xpath_results_namespaces:
  assumes "xpath_results env s q nsp kw = Inr rs" and "r \<in> set rs"
  shows "namespaces r = default_namespaces ++ namespaces s"
  using assms by (auto simp: xpath_results_def split: pyval.splits sum.splits)

lemma default_namespaces_absorbed:
  assumes "has_default_prefixes s"
  shows "default_namespaces ++ namespaces s = namespaces s"
proof
  fix p
  show "(default_namespaces ++ namespaces s) p = namespaces s p"
    using assms
    by (cases "namespaces s p")
      (auto simp: has_default_prefixes_def default_namespaces_def map_add_def)
qed

lemma xpath_frame:
  "namespaces (fst (xpath env s q nss kw)) = namespaces s"
  using kind_rule_namespaces [of env s]
  by (auto simp: xpath_by_kind_rule split: prod.splits option.splits)

lemma xpath_result_registry:
  assumes "has_default_prefixes s" and "snd (xpath env s q nss kw) = Inr rs" and "r \<in> set rs"
  shows "namespaces r = namespaces s"
proof -
  obtain s1 e where k: "kind_rule env s = (s1, e)" by (cases "kind_rule env s")
  have n: "namespaces s1 = namespaces s" using kind_rule_namespaces [of env s] k by simp
  show ?thesis
  proof (cases e)
    case None
    then have "xpath_results env s1 q
        (namespaces s ++ (case nss of None \<Rightarrow> Map.empty | Some m \<Rightarrow> m)) kw = Inr rs"
      using assms(2) k by (simp add: xpath_by_kind_rule)
    then have "namespaces r = default_namespaces ++ namespaces s1"
      using xpath_results_namespaces assms(3) by blast
    then show ?thesis using n default_namespaces_absorbed [OF assms(1)] by simp
  next
    case (Some a)
    then show ?thesis using assms(2) k by (simp add: xpath_by_kind_rule)
  qed
qed

lemma Selector_init_has_default_prefixes:
  assumes "Selector_init env text ty nss r b e = Inr s"
  shows "has_default_prefixes s"
proof -
  have "namespaces s = default_namespaces ++ (case nss of None \<Rightarrow> Map.empty | Some m \<Rightarrow> m)"
    using assms
    by (auto simp: Selector_init_def split: sum.splits option.splits prod.splits if_splits)
  then show ?thesis
    by (cases nss)
      (auto simp: has_default_prefixes_def default_namespaces_def map_add_def U_def
        split: option.splits)
qed

lemma register_namespace_has_default_prefixes:
  "has_default_prefixes s \<Longrightarrow> has_default_prefixes (register_namespace s p u)"
  by (simp add: has_default_prefixes_def register_namespace_def)

text \<open>
  Claim C6. For a selector whose registry holds the built-in prefixes (every selector the
  module constructs) and a call \<^verbatim>\<open>xpath(q, namespaces=N)\<close>: the evaluator receives the
  registry of the selector overridden by \<open>N\<close>, so a prefix of \<open>N\<close> has the URI \<open>N\<close>
  gives it and any other prefix that of the registry; the registry of the selector is
  the same after the call; every result carries the registry of the selector; and a
  later call without \<open>namespaces\<close> evaluates with the registry alone.
\<close>

theorem xpath_namespaces_call_scoped:
  assumes "has_default_prefixes s"
  shows "namespaces (fst (xpath env s q (Some N) kw)) = namespaces s
   \<and> (\<forall>s1. kind_rule env s = (s1, None) \<longrightarrow>
         xpath env s q (Some N) kw = (s1, xpath_results env s1 q (namespaces s ++ N) kw))
   \<and> (\<forall>p u. N p = Some u \<longrightarrow> (namespaces s ++ N) p = Some u)
   \<and> (\<forall>p. N p = None \<longrightarrow> (namespaces s ++ N) p = namespaces s p)
   \<and> (\<forall>rs. snd (xpath env s q (Some N) kw) = Inr rs \<longrightarrow>
         (\<forall>r \<in> set rs. namespaces r = namespaces s \<and> has_default_prefixes r))
   \<and> (\<forall>s1. kind_rule env (fst (xpath env s q (Some N) kw)) = (s1, None) \<longrightarrow>
         xpath env (fst (xpath env s q (Some N) kw)) q' None kw' =
           (s1, xpath_results env s1 q' (namespaces s) kw'))"
proof -
  have a: "namespaces (fst (xpath env s q (Some N) kw)) = namespaces s"
    by (rule xpath_frame)
  have b: "\<forall>s1. kind_rule env s = (s1, None) \<longrightarrow>
         xpath env s q (Some N) kw = (s1, xpath_results env s1 q (namespaces s ++ N) kw)"
    by (simp add: xpath_by_kind_rule)
  have c: "\<forall>p u. N p = Some u \<longrightarrow> (namespaces s ++ N) p = Some u"
    by (simp add: map_add_def)
  have d: "\<forall>p. N p = None \<longrightarrow> (namespaces s ++ N) p = namespaces s p"
    by (simp add: map_add_def)
  have e: "\<forall>rs. snd (xpath env s q (Some N) kw) = Inr rs \<longrightarrow>
         (\<forall>r \<in> set rs. namespaces r = namespaces s \<and> has_default_prefixes r)"
    using xpath_result_registry [OF assms] assms by (simp add: has_default_prefixes_def)
  have f: "\<forall>s1. kind_rule env (fst (xpath env s q (Some N) kw)) = (s1, None) \<longrightarrow>
         xpath env (fst (xpath env s q (Some N) kw)) q' None kw' =
           (s1, xpath_results env s1 q' (namespaces s) kw')"
  proof (intro allI impI)
    fix s1
    define s2 where "s2 = fst (xpath env s q (Some N) kw)"
    assume "kind_rule env (fst (xpath env s q (Some N) kw)) = (s1, None)"
    then have k: "kind_rule env s2 = (s1, None)" by (simp add: s2_def)
    have "namespaces s2 = namespaces s" using a by (simp add: s2_def)
    then have "xpath env s2 q' None kw' = (s1, xpath_results env s1 q' (namespaces s) kw')"
      using k by (simp add: xpath_by_kind_rule [of env s2])
    then show "xpath env (fst (xpath env s q (Some N) kw)) q' None kw' =
           (s1, xpath_results env s1 q' (namespaces s) kw')"
      by (simp add: s2_def)
  qed
  show ?thesis using a b c d e f by blast
qed

theorem xpath_namespaces_call_scoped_witness:
  "has_default_prefixes (selector_of Html (Elem 0))
   \<and> namespaces (fst (xpath example_env (selector_of Html (Elem 0)) (U ''//x:p'')
                       (Some [U ''x'' \<mapsto> U ''urn:x'']) []))
     = default_namespaces
   \<and> (\<exists>r1 r2. snd (xpath example_env (selector_of Html (Elem 0)) (U ''//x:p'')
                       (Some [U ''x'' \<mapsto> U ''urn:x'']) []) = Inr [r1, r2]
        \<and> root r1 = Elem 1 \<and> namespaces r1 = default_namespaces
        \<and> root r2 = Elem 2 \<and> namespaces r2 = default_namespaces)"
proof -
  define s where "s = selector_of Html (Elem 0)"
  define N where "N = [U ''x'' \<mapsto> U ''urn:x'']"
  have h: "has_default_prefixes s"
    by (simp add: s_def selector_of_def has_default_prefixes_def default_namespaces_def U_def)
  have n: "namespaces s = default_namespaces" by (simp add: s_def selector_of_def)
  note c6 = xpath_namespaces_call_scoped [OF h, of example_env "U ''//x:p''" N "[]"]
  have a: "namespaces (fst (xpath example_env s (U ''//x:p'') (Some N) [])) = default_namespaces"
    using c6 n by simp
  obtain r1 r2 where r: "snd (xpath example_env s (U ''//x:p'') (Some N) []) = Inr [r1, r2]"
      "root r1 = Elem 1" "root r2 = Elem 2"
    by (simp add: xpath_tree_kind s_def selector_of_def xpath_results_def example_env_def)
  have "\<forall>r \<in> set [r1, r2]. namespaces r = namespaces s"
    using c6 r(1) by blast
  then have "namespaces r1 = default_namespaces \<and> namespaces r2 = default_namespaces"
    using n by simp
  then show ?thesis using h a r unfolding s_def N_def by blast
qed

text \<open>
  Claim C10, as stated, fails for \<^verbatim>\<open>css\<close>: the translation comes first, and the empty CSS
  query is refused by the translator although the root is a string.
\<close>

theorem css_non_node_root_counterexample:
  "type (selector_of Html (PStr (U ''x''))) = Html
   \<and> root (selector_of Html (PStr (U ''x''))) = PStr (U ''x'')
   \<and> snd (css example_env (selector_of Html (PStr (U ''x''))) []) = Inl SelectorError
   \<and> snd (css example_env (selector_of Html (PStr (U ''x''))) []) \<noteq> Inr []"
  by (simp add: css_def selector_of_def example_env_def css_fragment_def)

text \<open>
  Claim C10, amended. On a selector of kind html or xml whose root is not an element,
  \<^verbatim>\<open>xpath\<close> raises nothing and returns the empty list, whatever the query, the namespaces
  and the variables; \<^verbatim>\<open>css\<close> returns the empty list when the translator accepts the
  query, and raises the translator's error otherwise. Neither changes the selector.
\<close>

theorem xpath_non_node_root_empty:
  assumes "type s = Html \<or> type s = Xml" and "\<forall>n. root s \<noteq> Elem n"
  shows "xpath env s q nss kw = (s, Inr [])
   \<and> css env s q' =
       (s, case css_to_xpath env (type s) q' of Inl e \<Rightarrow> Inl e | Inr x \<Rightarrow> Inr [])"
proof -
  have r: "xpath_results env s x nsp kw' = Inr []" for x nsp kw'
    using assms(2) by (cases "root s") (simp_all add: xpath_results_def)
  have a: "xpath env s x nss' kw' = (s, Inr [])" for x nss' kw'
    using xpath_tree_kind [OF assms(1)] r by simp
  have "css env s q' =
       (s, case css_to_xpath env (type s) q' of Inl e \<Rightarrow> Inl e | Inr x \<Rightarrow> Inr [])"
    using css_tree_kind [OF assms(1), of env q'] a by (simp split: sum.splits)
  then show ?thesis using a by simp
qed

theorem xpath_non_node_root_empty_witness:
  "xpath example_env (selector_of Xml (PStr (U ''x''))) (U ''//p'') None []
     = (selector_of Xml (PStr (U ''x'')), Inr [])
   \<and> css example_env (selector_of Xml (PStr (U ''x''))) (U ''p'')
     = (selector_of Xml (PStr (U ''x'')), Inr [])"
proof -
  have "type (selector_of Xml (PStr (U ''x''))) = Html \<or> type (selector_of Xml (PStr (U ''x''))) = Xml"
    by (simp add: selector_of_def)
  moreover have "\<forall>n. root (selector_of Xml (PStr (U ''x''))) \<noteq> Elem n"
    by (simp add: selector_of_def)
  moreover have "css_to_xpath example_env Xml (U ''p'') = Inr (U ''descendant-or-self::p'')"
    by (simp add: example_env_def css_fragment_def U_def)
  moreover have "type (selector_of Xml (PStr (U ''x''))) = Xml" by (simp add: selector_of_def)
  ultimately show ?thesis
    using xpath_non_node_root_empty
      [of "selector_of Xml (PStr (U ''x''))" example_env "U ''//p''" None "[]" "U ''p''"]
    by simp
qed

section \<open>Properties of the JMESPath query\<close>

lemma not_deep_json: "length t < 1000 \<Longrightarrow> (t = deep_json) = False"
  by (auto simp: deep_json_def)













lemma Selector_init_json_text:
  "Selector_init env (PStr t) (Some (U ''json'')) nss r b e =
     (case json_loads env t of
        Inl err \<Rightarrow>
          if err = ValueError
          then Inr \<lparr>namespaces =
                      default_namespaces ++ (case nss of None \<Rightarrow> Map.empty | Some m \<Rightarrow> m),
                    type = Json, expr = e, root = PNone, raw_text = Some t\<rparr>
          else Inl err
      | Inr v \<Rightarrow>
          Inr \<lparr>namespaces =
                 default_namespaces ++ (case nss of None \<Rightarrow> Map.empty | Some m \<Rightarrow> m),
               type = Json, expr = e, root = v, raw_text = Some t\<rparr>)"
  by (simp add: Selector_init_def check_type_def kind_of_def init_document_def str_value_def
      load_json_or_none_def U_def split: sum.splits)

lemma lookup_path_null: "lookup_path ks PNone = PNone"
  by (cases ks) simp_all

lemma example_loads_empty: "json_loads example_env [] = Inl ValueError"
  by (simp add: example_env_def json_loads_fragment_def not_deep_json is_json_int_def U_def)

lemma example_loads_brace: "json_loads example_env (U ''{'') = Inl ValueError"
  by (simp add: example_env_def json_loads_fragment_def not_deep_json is_json_int_def
      is_digit_def U_def)

lemma example_loads_deep: "json_loads example_env deep_json = Inl RecursionError"
  by (simp add: example_env_def json_loads_fragment_def)

text \<open>
  Claim C5, as stated, fails twice. A thousand opening brackets are not valid JSON, and
  \<^verbatim>\<open>json.loads\<close> fails on them with \<^verbatim>\<open>RecursionError\<close>, which \<^verbatim>\<open>_load_json_or_none\<close> does not
  catch: the constructor raises. And a query whose value does not depend on the document
  does not return the empty list: the empty text is not valid JSON, the selector built
  from it holds \<^verbatim>\<open>None\<close>, and the literal query \<^verbatim>\<open>`1`\<close> (code points 96, 49, 96) on it
  returns one selector.
\<close>

theorem jmespath_on_null_counterexample:
  "json_loads example_env deep_json = Inl RecursionError
   \<and> Selector_init example_env (PStr deep_json) (Some (U ''json'')) None None None None
     = Inl RecursionError
   \<and> json_loads example_env [] = Inl ValueError
   \<and> Selector_init example_env (PStr []) (Some (U ''json'')) None None None None
     = Inr \<lparr>namespaces = default_namespaces, type = Json, expr = None, root = PNone,
            raw_text = Some []\<rparr>
   \<and> jmespath example_env
       \<lparr>namespaces = default_namespaces, type = Json, expr = None, root = PNone,
        raw_text = Some []\<rparr> [96, 49, 96] None
     = Inr [\<lparr>namespaces = default_namespaces, type = Json, expr = Some [96, 49, 96],
             root = PInt 1, raw_text = None\<rparr>]"
proof -
  have d: "Selector_init example_env (PStr deep_json) (Some (U ''json'')) None None None None
     = Inl RecursionError"
    by (simp add: Selector_init_json_text example_loads_deep)
  have b: "Selector_init example_env (PStr []) (Some (U ''json'')) None None None None
     = Inr \<lparr>namespaces = default_namespaces, type = Json, expr = None, root = PNone,
            raw_text = Some []\<rparr>"
    by (simp add: Selector_init_json_text example_loads_empty)
  have c: "jmespath example_env
       \<lparr>namespaces = default_namespaces, type = Json, expr = None, root = PNone,
        raw_text = Some []\<rparr> [96, 49, 96] None
     = Inr [\<lparr>namespaces = default_namespaces, type = Json, expr = Some [96, 49, 96],
             root = PInt 1, raw_text = None\<rparr>]"
    by (simp add: example_env_def jmespath_def jmespath_data_def jmespath_fragment_def
        backquoted_def is_json_int_def is_digit_def int_of_digits_def jmespath_items_def
        make_selector_def str_value_def Selector_init_def check_type_def init_document_def)
  show ?thesis using example_loads_deep example_loads_empty d b c by blast
qed

text \<open>
  Claim C5, amended. For every string on which the JSON parser fails with its parse
  error (\<^verbatim>\<open>ValueError\<close>), constructing a selector of kind json raises nothing and stores
  \<^verbatim>\<open>None\<close>; a failure of the parser of any other class (\<^verbatim>\<open>RecursionError\<close> on a deeply
  nested text) is not caught, and the constructor raises it. A later \<^verbatim>\<open>jmespath\<close> query on
  the selector that holds \<^verbatim>\<open>None\<close> evaluates its expression on the null document: it
  returns the empty list when the evaluator's result is null, raises what the evaluator
  raises, and wraps a result that is not null.
\<close>

theorem invalid_json_fails_soft:
  "(json_loads env t = Inl ValueError \<longrightarrow>
      (\<exists>s. Selector_init env (PStr t) (Some (U ''json'')) nss r b e = Inr s
         \<and> type s = Json \<and> root s = PNone
         \<and> (\<forall>q ty. jmespath_search env q PNone = Inr PNone \<longrightarrow> jmespath env s q ty = Inr [])
         \<and> (\<forall>q ty err. jmespath_search env q PNone = Inl err \<longrightarrow> jmespath env s q ty = Inl err)
         \<and> (\<forall>q ty res. jmespath_search env q PNone = Inr res \<longrightarrow>
               jmespath env s q ty = collect (map (make_selector env q ty) (jmespath_items res)))))
   \<and> (\<forall>err. json_loads env t = Inl err \<and> err \<noteq> ValueError \<longrightarrow>
         Selector_init env (PStr t) (Some (U ''json'')) nss r b e = Inl err)"
  by (simp add: Selector_init_json_text jmespath_def jmespath_data_def jmespath_items_def)

theorem invalid_json_fails_soft_witness:
  "json_loads example_env (U ''{'') = Inl ValueError
   \<and> (\<exists>s. Selector_init example_env (PStr (U ''{'')) (Some (U ''json'')) None None None None = Inr s
        \<and> type s = Json \<and> root s = PNone
        \<and> jmespath example_env s (U ''a.b'') None = Inr [])
   \<and> json_loads example_env deep_json = Inl RecursionError
   \<and> Selector_init example_env (PStr deep_json) (Some (U ''json'')) None None None None
     = Inl RecursionError"
proof -
  note h = example_loads_brace
  have n: "jmespath_search example_env (U ''a.b'') PNone = Inr PNone"
    by (simp add: example_env_def jmespath_fragment_def backquoted_def is_identifier_def
        is_letter_def is_digit_def U_def)
  have a: "\<exists>s. Selector_init example_env (PStr (U ''{'')) (Some (U ''json'')) None None None None = Inr s
        \<and> type s = Json \<and> root s = PNone
        \<and> jmespath example_env s (U ''a.b'') None = Inr []"
    using invalid_json_fails_soft [of example_env "U ''{''" None None None None] h n by blast
  have "RecursionError \<noteq> ValueError" by simp
  then have b: "Selector_init example_env (PStr deep_json) (Some (U ''json'')) None None None None
     = Inl RecursionError"
    using invalid_json_fails_soft [of example_env deep_json None None None None]
      example_loads_deep by blast
  show ?thesis using h a example_loads_deep b by blast
qed

lemma example_search_a_b:
  "jmespath_search example_env (U ''a.b'') (PDict [(U ''a'', PDict kvs)]) =
     Inr (case map_of kvs (U ''b'') of None \<Rightarrow> PNone | Some w \<Rightarrow> w)"
  by (simp add: example_env_def jmespath_fragment_def backquoted_def is_identifier_def
      is_letter_def is_digit_def U_def split: option.splits)

lemma jmespath_json_scalar:
  assumes "type s = Json" and "jmespath_search env q (root s) = Inr (PInt i)"
  shows "jmespath env s q None =
     Inr [\<lparr>namespaces = default_namespaces, type = Json, expr = Some q, root = PInt i,
           raw_text = None\<rparr>]"
  using assms
  by (simp add: jmespath_def jmespath_data_def str_value_def jmespath_items_def make_selector_def
      Selector_init_def check_type_def init_document_def)

text \<open>
  Claim C9, as stated, fails in its first half: the result of \<^verbatim>\<open>jmespath("a.b")\<close> over
  \<^verbatim>\<open>{"a": {"b": 5}}\<close> is of kind json, and \<^verbatim>\<open>get()\<close> of a selector of kind json returns
  the stored value, the integer 5, not the string \<^verbatim>\<open>"5"\<close>.
\<close>

theorem jmespath_a_b_counterexample:
  "jmespath example_env (selector_of Json (PDict [(U ''a'', PDict [(U ''b'', PInt 5)])]))
       (U ''a.b'') None
     = Inr [\<lparr>namespaces = default_namespaces, type = Json, expr = Some (U ''a.b''),
             root = PInt 5, raw_text = None\<rparr>]
   \<and> get example_env
       \<lparr>namespaces = default_namespaces, type = Json, expr = Some (U ''a.b''),
        root = PInt 5, raw_text = None\<rparr> = PInt 5
   \<and> get example_env
       \<lparr>namespaces = default_namespaces, type = Json, expr = Some (U ''a.b''),
        root = PInt 5, raw_text = None\<rparr> \<noteq> PStr (U ''5'')"
proof -
  have "jmespath example_env (selector_of Json (PDict [(U ''a'', PDict [(U ''b'', PInt 5)])]))
       (U ''a.b'') None
     = Inr [\<lparr>namespaces = default_namespaces, type = Json, expr = Some (U ''a.b''),
             root = PInt 5, raw_text = None\<rparr>]"
    by (rule jmespath_json_scalar) (simp_all add: selector_of_def example_search_a_b)
  then show ?thesis by (simp add: get_def)
qed

text \<open>
  Claim C9, amended. For an evaluator that gives \<^verbatim>\<open>a.b\<close> the value 5 on
  \<^verbatim>\<open>{"a": {"b": 5}}\<close> and null on \<^verbatim>\<open>{"a": {}}\<close>: the constructor makes of each document a
  selector of kind json; over the first, \<^verbatim>\<open>jmespath("a.b")\<close> yields exactly one result, of
  kind json, whose \<^verbatim>\<open>get()\<close> is the integer 5; over the second it yields the empty list.
\<close>

theorem jmespath_a_b:
  assumes "jmespath_search env (U ''a.b'') (PDict [(U ''a'', PDict [(U ''b'', PInt 5)])])
             = Inr (PInt 5)"
    and "jmespath_search env (U ''a.b'') (PDict [(U ''a'', PDict [])]) = Inr PNone"
  shows "Selector_init env PNone None None (Some (PDict [(U ''a'', PDict [(U ''b'', PInt 5)])]))
           None None
         = Inr (selector_of Json (PDict [(U ''a'', PDict [(U ''b'', PInt 5)])]))
   \<and> Selector_init env PNone None None (Some (PDict [(U ''a'', PDict [])])) None None
         = Inr (selector_of Json (PDict [(U ''a'', PDict [])]))
   \<and> (\<exists>r. jmespath env (selector_of Json (PDict [(U ''a'', PDict [(U ''b'', PInt 5)])]))
              (U ''a.b'') None = Inr [r]
          \<and> type r = Json \<and> get env r = PInt 5)
   \<and> jmespath env (selector_of Json (PDict [(U ''a'', PDict [])])) (U ''a.b'') None = Inr []"
proof -
  have i: "Selector_init env PNone None None (Some (PDict kvs)) None None
         = Inr (selector_of Json (PDict kvs))" for kvs
    by (simp add: Selector_init_def check_type_def init_document_def str_value_def selector_of_def)
  have a: "jmespath env (selector_of Json (PDict [(U ''a'', PDict [(U ''b'', PInt 5)])]))
              (U ''a.b'') None
     = Inr [\<lparr>namespaces = default_namespaces, type = Json, expr = Some (U ''a.b''),
             root = PInt 5, raw_text = None\<rparr>]"
    by (rule jmespath_json_scalar) (simp_all add: selector_of_def assms(1))
  have b: "jmespath env (selector_of Json (PDict [(U ''a'', PDict [])])) (U ''a.b'') None = Inr []"
    using assms(2)
    by (simp add: jmespath_def jmespath_data_def str_value_def selector_of_def jmespath_items_def)
  have "get env \<lparr>namespaces = default_namespaces, type = Json, expr = Some (U ''a.b''),
             root = PInt 5, raw_text = None\<rparr> = PInt 5"
    by (simp add: get_def)
  then show ?thesis using i a b by simp
qed

theorem jmespath_a_b_witness:
  "jmespath_search example_env (U ''a.b'') (PDict [(U ''a'', PDict [(U ''b'', PInt 5)])])
     = Inr (PInt 5)
   \<and> jmespath_search example_env (U ''a.b'') (PDict [(U ''a'', PDict [])]) = Inr PNone
   \<and> (\<exists>r. jmespath example_env (selector_of Json (PDict [(U ''a'', PDict [(U ''b'', PInt 5)])]))
              (U ''a.b'') None = Inr [r]
          \<and> type r = Json \<and> get example_env r = PInt 5)
   \<and> jmespath example_env (selector_of Json (PDict [(U ''a'', PDict [])])) (U ''a.b'') None
     = Inr []"
proof -
  have h1: "jmespath_search example_env (U ''a.b'') (PDict [(U ''a'', PDict [(U ''b'', PInt 5)])])
     = Inr (PInt 5)"
    by (simp add: example_search_a_b)
  have h2: "jmespath_search example_env (U ''a.b'') (PDict [(U ''a'', PDict [])]) = Inr PNone"
    by (simp add: example_search_a_b)
  show ?thesis using jmespath_a_b [OF h1 h2] h1 h2 by blast
qed

section \<open>Properties of the root materializer and of construction\<close>

lemma dropWhile_keeps: "x \<in> set xs \<Longrightarrow> \<not> P x \<Longrightarrow> x \<in> set (dropWhile P xs)"
  by (induction xs) auto

lemma set_strip_subset: "set (strip t) \<subseteq> set t"
proof -
  have "set (strip t) = set (dropWhile isspace (rev (dropWhile isspace t)))"
    by (simp add: strip_def)
  also have "\<dots> \<subseteq> set (rev (dropWhile isspace t))"
    using set_dropWhileD by fastforce
  also have "\<dots> \<subseteq> set t"
    using set_dropWhileD by fastforce
  finally show ?thesis .
qed

lemma strip_keeps: "x \<in> set t \<Longrightarrow> \<not> isspace x \<Longrightarrow> x \<in> set (strip t)"
  by (simp add: strip_def dropWhile_keeps)

lemma last_dropWhile: "dropWhile P xs \<noteq> [] \<Longrightarrow> last (dropWhile P xs) = last xs"
  by (induction xs) (auto split: if_splits)

lemma strip_ends:
  assumes "strip t \<noteq> []"
  shows "\<not> isspace (hd (strip t)) \<and> \<not> isspace (last (strip t))"
proof -
  define u where "u = dropWhile isspace t"
  define v where "v = dropWhile isspace (rev u)"
  have s: "strip t = rev v" by (simp add: strip_def u_def v_def)
  then have v: "v \<noteq> []" using assms by simp
  then have ru: "rev u \<noteq> []" by (auto simp: v_def)
  then have u: "u \<noteq> []" by simp
  have "\<not> isspace (hd v)" using v unfolding v_def by (rule hd_dropWhile)
  then have l: "\<not> isspace (last (strip t))" using s v by (simp add: last_rev)
  have "last v = last (rev u)" using v unfolding v_def by (rule last_dropWhile)
  then have "hd (strip t) = hd u" using s v u by (simp add: hd_rev last_rev)
  moreover have "\<not> isspace (hd u)" using u unfolding u_def by (rule hd_dropWhile)
  ultimately show ?thesis using l by simp
qed

lemma strip_all_space: "list_all isspace t \<Longrightarrow> strip t = []"
proof -
  assume "list_all isspace t"
  then have d: "dropWhile isspace t = []" by (simp add: list_all_iff)
  show ?thesis unfolding strip_def d by simp
qed

lemma replace_nul_no_nul: "0 \<notin> set (replace_nul s)"
  by (simp add: replace_nul_def)

lemma replace_nul_all_nul: "list_all (\<lambda>c. c = 0) t \<Longrightarrow> replace_nul (strip t) = []"
proof -
  assume "list_all (\<lambda>c. c = 0) t"
  then have "\<forall>c \<in> set (strip t). c = 0" using set_strip_subset [of t] by (auto simp: list_all_iff)
  then show ?thesis by (simp add: replace_nul_def filter_empty_conv)
qed

lemma surrogate_kept:
  "list_ex is_surrogate (replace_nul (strip t)) \<longleftrightarrow> list_ex is_surrogate t"
proof
  assume "list_ex is_surrogate (replace_nul (strip t))"
  then show "list_ex is_surrogate t"
    using set_strip_subset [of t] by (auto simp: list_ex_iff replace_nul_def)
next
  assume "list_ex is_surrogate t"
  then obtain c where c: "c \<in> set t" "is_surrogate c" by (auto simp: list_ex_iff)
  then have "\<not> isspace c" and "c \<noteq> 0" by (auto simp: is_surrogate_def isspace_def)
  then have "c \<in> set (replace_nul (strip t))"
    using c(1) strip_keeps by (simp add: replace_nul_def)
  then show "list_ex is_surrogate (replace_nul (strip t))" using c(2) by (auto simp: list_ex_iff)
qed

lemma utf8_char_no_nul: "c \<noteq> 0 \<Longrightarrow> 0 \<notin> set (utf8_char c)"
  by (simp add: utf8_char_def)

lemma utf8_char_nonempty: "utf8_char c \<noteq> []"
  by (simp add: utf8_char_def)

lemma html_stub_facts: "html_stub \<noteq> [] \<and> 0 \<notin> set html_stub"
  by (simp add: html_stub_def U_def)

lemma root_body_error: "root_body t = Inl err \<longleftrightarrow> list_ex is_surrogate t \<and> err = UnicodeEncodeError"
  using surrogate_kept [of t] by (auto simp: root_body_def encode_utf8_def)

lemma root_body_ok:
  assumes "\<not> list_ex is_surrogate t"
  shows "\<exists>body. root_body t = Inr body \<and> body \<noteq> [] \<and> 0 \<notin> set body
     \<and> body = (if replace_nul (strip t) = [] then html_stub
                else concat (map utf8_char (replace_nul (strip t))))"
proof -
  define w where "w = replace_nul (strip t)"
  have ns: "\<not> list_ex is_surrogate w" using assms surrogate_kept [of t] by (simp add: w_def)
  have e: "concat (map utf8_char w) = [] \<longleftrightarrow> w = []"
    using utf8_char_nonempty by (cases w) auto
  have z: "0 \<notin> set (concat (map utf8_char w))"
  proof
    assume "0 \<in> set (concat (map utf8_char w))"
    then obtain c where c: "c \<in> set w" "0 \<in> set (utf8_char c)" by auto
    have "0 \<notin> set w" unfolding w_def by (rule replace_nul_no_nul)
    then have "c \<noteq> 0" using c(1) by metis
    then show False using c(2) utf8_char_no_nul by blast
  qed
  have b: "root_body t = Inr (if concat (map utf8_char w) = [] then html_stub
                            else concat (map utf8_char w))"
    using ns by (simp add: root_body_def encode_utf8_def w_def)
  show ?thesis
  proof (cases "w = []")
    case True
    then have "root_body t = Inr html_stub" using b by simp
    then show ?thesis using True html_stub_facts unfolding w_def by simp
  next
    case False
    then have ne: "concat (map utf8_char w) \<noteq> []" using e by blast
    have "root_body t = Inr (concat (map utf8_char w))"
      unfolding b using ne by (simp del: concat_eq_Nil_conv)
    then show ?thesis using False ne z unfolding w_def by (simp del: concat_eq_Nil_conv)
  qed
qed

lemma create_root_node_error:
  "create_root_node t p b = Inl err \<longleftrightarrow> list_ex is_surrogate t \<and> err = UnicodeEncodeError"
  using root_body_error [of t err]
  by (auto simp: create_root_node_def split: sum.splits option.splits)

lemma create_root_node_ok:
  assumes "root_body t = Inr body"
  shows "create_root_node t p b =
     Inr (case p b body of
            Some n \<Rightarrow> Elem n
          | None \<Rightarrow> (case p b html_stub of Some n \<Rightarrow> Elem n | None \<Rightarrow> PNone))"
  using assms by (simp add: create_root_node_def split: option.splits)

lemma get_tree_kind_string:
  assumes "type s = Html \<or> type s = Xml"
  shows "\<exists>str. get env s = PStr str"
  using assms by (cases "root s") (auto simp: get_def)

text \<open>
  Claim C1, as stated, fails on a text that holds a surrogate code point, which a Python 3
  string may: \<^verbatim>\<open>'\ud800'.encode('utf8')\<close> raises \<^verbatim>\<open>UnicodeEncodeError\<close>, and
  \<^verbatim>\<open>create_root_node\<close> does not catch it.
\<close>

theorem html_construction_counterexample:
  "Selector_init example_env (PStr [55296]) (Some (U ''html'')) None None None None
     = Inl UnicodeEncodeError"
  by (simp add: Selector_init_def check_type_def kind_of_def init_document_def str_value_def get_root_def
      create_root_node_def root_body_def encode_utf8_def strip_def replace_nul_def isspace_def
      is_surrogate_def U_def)

text \<open>
  Claim C1, amended. For every text without a surrogate code point (the empty text, a
  text of white space and a text of NUL characters included), constructing a selector of
  kind html or xml raises nothing. The bytes handed to the parser are the UTF-8 encoding
  of the text with the white space at both ends and every NUL removed, or the stand-in
  \<^verbatim>\<open><html/>\<close> when nothing is left (as for a text of white space, or of NULs): they are
  not empty and hold no NUL byte. The root is what the parser yields for them, else what
  it yields for the stand-in, else \<^verbatim>\<open>None\<close>; in each case \<^verbatim>\<open>get()\<close> returns a string.
\<close>

theorem html_xml_construction_total:
  assumes "\<not> list_ex is_surrogate t" and "k = Html \<or> k = Xml"
  shows "\<exists>s body. root_body t = Inr body \<and> body \<noteq> [] \<and> 0 \<notin> set body
     \<and> body = (if replace_nul (strip t) = [] then html_stub
                else concat (map utf8_char (replace_nul (strip t))))
     \<and> (strip t \<noteq> [] \<longrightarrow> \<not> isspace (hd (strip t)) \<and> \<not> isspace (last (strip t)))
     \<and> (list_all isspace t \<or> list_all (\<lambda>c. c = 0) t \<longrightarrow> body = html_stub)
     \<and> Selector_init env (PStr t) (Some (type_name k)) nss r b e = Inr s
     \<and> type s = k
     \<and> root s = (case parser env k b body of
                    Some n \<Rightarrow> Elem n
                  | None \<Rightarrow> (case parser env k b html_stub of Some n \<Rightarrow> Elem n | None \<Rightarrow> PNone))
     \<and> (\<exists>str. get env s = PStr str)"
proof -
  obtain body where body: "root_body t = Inr body" "body \<noteq> []" "0 \<notin> set body"
      "body = (if replace_nul (strip t) = [] then html_stub
                else concat (map utf8_char (replace_nul (strip t))))"
    using root_body_ok [OF assms(1)] by blast
  define rt where "rt = (case parser env k b body of
                    Some n \<Rightarrow> Elem n
                  | None \<Rightarrow> (case parser env k b html_stub of Some n \<Rightarrow> Elem n | None \<Rightarrow> PNone))"
  define s where "s = \<lparr>namespaces = default_namespaces ++ (case nss of None \<Rightarrow> Map.empty | Some m \<Rightarrow> m),
      type = k, expr = e, root = rt, raw_text = Some t\<rparr>"
  have doc: "init_document env (PStr t) (Some k) r b = Inr (k, rt)"
    using assms(2) create_root_node_ok [OF body(1), of "parser env k" b]
    by (auto simp: init_document_def str_value_def get_root_def rt_def)
  have init: "Selector_init env (PStr t) (Some (type_name k)) nss r b e = Inr s"
    using doc by (simp add: Selector_init_def check_type_def kind_of_type_name s_def str_value_def)
  have ends: "strip t \<noteq> [] \<longrightarrow> \<not> isspace (hd (strip t)) \<and> \<not> isspace (last (strip t))"
    using strip_ends by blast
  have blank: "list_all isspace t \<or> list_all (\<lambda>c. c = 0) t \<longrightarrow> body = html_stub"
    using body(4) strip_all_space [of t] replace_nul_all_nul [of t]
    by (auto simp: replace_nul_def)
  have ty: "type s = k" by (simp add: s_def)
  have g: "\<exists>str. get env s = PStr str"
    using get_tree_kind_string [of s env] assms(2) ty by simp
  have "root s = rt" by (simp add: s_def)
  then show ?thesis using body init ends blank ty g unfolding rt_def by blast
qed

theorem html_xml_construction_total_witness:
  "\<not> list_ex is_surrogate [32, 0, 32]
   \<and> root_body [32, 0, 32] = Inr html_stub
   \<and> (\<exists>s. Selector_init example_env (PStr [32, 0, 32]) (Some (U ''html'')) None None None None
              = Inr s
          \<and> type s = Html \<and> root s = Elem 0
          \<and> get example_env s = PStr (U ''<html></html>''))"
proof -
  have h: "\<not> list_ex is_surrogate [32, 0, 32]" by (simp add: is_surrogate_def)
  have k: "Html = Html \<or> Html = Xml" by simp
  obtain s body where c1: "root_body [32, 0, 32] = Inr body"
      "body \<noteq> []"
      "body = (if replace_nul (strip [32, 0, 32]) = [] then html_stub
                else concat (map utf8_char (replace_nul (strip [32, 0, 32]))))"
      "Selector_init example_env (PStr [32, 0, 32]) (Some (type_name Html)) None None None None
         = Inr s"
      "type s = Html"
      "root s = (case parser example_env Html None body of
                    Some n \<Rightarrow> Elem n
                  | None \<Rightarrow> (case parser example_env Html None html_stub of
                       Some n \<Rightarrow> Elem n | None \<Rightarrow> PNone))"
    using html_xml_construction_total [OF h k, of example_env None None None None] by blast
  have b: "body = html_stub"
    using c1(3) by (simp add: strip_def replace_nul_def isspace_def)
  have r: "root s = Elem 0" using c1(6) by (simp add: example_env_def)
  have g: "get example_env s = PStr (U ''<html></html>'')"
    using c1(5) r by (simp add: get_def example_env_def)
  have "type_name Html = U ''html''" by (simp add: type_name_def)
  then show ?thesis using h c1(1,4,5) b r g by auto
qed

text \<open>
  Claim C7, as stated, fails in its last part: a string with a surrogate code point and
  no \<^verbatim>\<open>type\<close> passes the three checks, and the constructor still raises.
\<close>

theorem constructor_failure_counterexample:
  "check_type None = Inr None
   \<and> PStr [56320] \<noteq> PNone
   \<and> Selector_init example_env (PStr [56320]) None None None None None = Inl UnicodeEncodeError"
  by (simp add: Selector_init_def check_type_def init_document_def str_value_def get_root_def
      create_root_node_def root_body_def encode_utf8_def strip_def replace_nul_def isspace_def
      is_surrogate_def)

lemma init_document_error:
  assumes "str_value text = Some t"
  shows "init_document env text ko r b = Inl err \<longleftrightarrow>
     (ko \<noteq> Some Json \<and> ko \<noteq> Some Text \<and> list_ex is_surrogate t \<and> err = UnicodeEncodeError)
     \<or> (ko = Some Json \<and> json_loads env t = Inl err \<and> err \<noteq> ValueError)"
proof (cases ko)
  case None
  then show ?thesis
    using assms create_root_node_error [of t "parser env Html" b err]
    by (auto simp: init_document_def get_root_def split: sum.splits)
next
  case (Some k)
  then show ?thesis
    using assms create_root_node_error [of t "parser env k" b err]
    by (cases k)
      (auto simp: init_document_def get_root_def load_json_or_none_def
        split: sum.splits option.splits if_splits)
qed

lemma check_type_error:
  "check_type ty = Inl err \<longleftrightarrow> (\<exists>n. ty = Some n \<and> kind_of n = None) \<and> err = ValueError"
  by (auto simp: check_type_def split: option.splits)

lemma check_type_ok:
  "check_type ty = Inr ko \<longleftrightarrow>
     (ty = None \<and> ko = None) \<or> (\<exists>n k. ty = Some n \<and> kind_of n = Some k \<and> ko = Some k)"
  by (auto simp: check_type_def split: option.splits)

lemma kind_of_json: "kind_of n = Some Json \<longleftrightarrow> n = U ''json''"
  by (auto simp: kind_of_def U_def)

lemma kind_of_text: "kind_of n = Some Text \<longleftrightarrow> n = U ''text''"
  by (auto simp: kind_of_def U_def)

text \<open>
  Claim C7, amended. Constructing a selector fails exactly when: the \<^verbatim>\<open>type\<close> given is
  not one of html, xml, json, text (\<^verbatim>\<open>ValueError\<close>); or neither text nor root is given
  (\<^verbatim>\<open>ValueError\<close>); or the text given is not a string (\<^verbatim>\<open>TypeError\<close>); or the text is a
  string with a surrogate code point and the type is html, xml or not given (the
  \<^verbatim>\<open>UnicodeEncodeError\<close> of the encoding); or the type is json and the JSON parser fails on
  the text with anything but its parse error \<^verbatim>\<open>ValueError\<close> (the \<^verbatim>\<open>RecursionError\<close> of a
  deeply nested text). In every other case the construction succeeds.
\<close>

theorem constructor_fails_exactly:
  "((\<exists>err. Selector_init env text ty nss r b e = Inl err) \<longleftrightarrow>
       (\<exists>n. ty = Some n \<and> kind_of n = None)
     \<or> (text = PNone \<and> r = None)
     \<or> (text \<noteq> PNone \<and> str_value text = None)
     \<or> (\<exists>t. str_value text = Some t \<and> list_ex is_surrogate t
              \<and> ty \<noteq> Some (U ''json'') \<and> ty \<noteq> Some (U ''text''))
     \<or> (\<exists>t err. str_value text = Some t \<and> ty = Some (U ''json'')
              \<and> json_loads env t = Inl err \<and> err \<noteq> ValueError))
   \<and> ((\<exists>n. ty = Some n \<and> kind_of n = None) \<longrightarrow>
         Selector_init env text ty nss r b e = Inl ValueError)
   \<and> (text = PNone \<and> r = None \<longrightarrow> Selector_init env text ty nss r b e = Inl ValueError)
   \<and> ((\<forall>n. ty = Some n \<longrightarrow> kind_of n \<noteq> None) \<and> text \<noteq> PNone \<and> str_value text = None \<longrightarrow>
         Selector_init env text ty nss r b e = Inl TypeError)"
proof (cases "check_type ty")
  case (Inl err)
  then have bad: "\<exists>n. ty = Some n \<and> kind_of n = None" and "err = ValueError"
    using check_type_error [of ty err] by auto
  then have "Selector_init env text ty nss r b e = Inl ValueError"
    using Inl by (simp add: Selector_init_def)
  then show ?thesis using bad by auto
next
  case (Inr ko)
  then have good: "\<forall>n. ty = Some n \<longrightarrow> kind_of n \<noteq> None"
    using check_type_ok [of ty ko] by auto
  have j: "ko = Some Json \<longleftrightarrow> ty = Some (U ''json'')"
    and x: "ko = Some Text \<longleftrightarrow> ty = Some (U ''text'')"
  proof -
    show "ko = Some Json \<longleftrightarrow> ty = Some (U ''json'')"
    proof (cases ty)
      case None
      then show ?thesis using Inr by (simp add: check_type_def)
    next
      case (Some n)
      then obtain k where "kind_of n = Some k" "ko = Some k"
        using Inr check_type_ok [of ty ko] by auto
      then show ?thesis using Some kind_of_json [of n] by auto
    qed
    show "ko = Some Text \<longleftrightarrow> ty = Some (U ''text'')"
    proof (cases ty)
      case None
      then show ?thesis using Inr by (simp add: check_type_def)
    next
      case (Some n)
      then obtain k where "kind_of n = Some k" "ko = Some k"
        using Inr check_type_ok [of ty ko] by auto
      then show ?thesis using Some kind_of_text [of n] by auto
    qed
  qed
  show ?thesis
  proof (cases "str_value text")
    case None
    show ?thesis
    proof (cases "text = PNone")
      case True
      then show ?thesis using Inr good None
        by (cases r) (auto simp: Selector_init_def init_document_def)
    next
      case False
      then have "Selector_init env text ty nss r b e = Inl TypeError"
        using Inr None by (simp add: Selector_init_def)
      then show ?thesis using False None good by auto
    qed
  next
    case (Some t)
    then have np: "text \<noteq> PNone" by (auto simp: str_value_def)
    have "(\<exists>err. Selector_init env text ty nss r b e = Inl err) \<longleftrightarrow>
        (\<exists>err. init_document env text ko r b = Inl err)"
      using Inr Some np by (auto simp: Selector_init_def split: sum.splits prod.splits)
    then have "(\<exists>err. Selector_init env text ty nss r b e = Inl err) \<longleftrightarrow>
        (list_ex is_surrogate t \<and> ty \<noteq> Some (U ''json'') \<and> ty \<noteq> Some (U ''text''))
        \<or> (\<exists>err. ty = Some (U ''json'') \<and> json_loads env t = Inl err \<and> err \<noteq> ValueError)"
      using init_document_error [OF Some, of env ko r b] j x by auto
    then show ?thesis using Some np good by auto
  qed
qed

theorem constructor_fails_exactly_witness:
  "Selector_init example_env PNone None None None None None = Inl ValueError
   \<and> Selector_init example_env (PStr (U ''<p/>'')) (Some (U ''pdf'')) None None None None
     = Inl ValueError
   \<and> Selector_init example_env (PBytes (U ''<p/>'')) None None None None None = Inl TypeError
   \<and> (\<exists>err. Selector_init example_env (PStr deep_json) (Some (U ''json'')) None None None None
               = Inl err)
   \<and> (\<exists>s. Selector_init example_env (PStr (U ''<p/>'')) None None None None None = Inr s)
   \<and> (\<exists>s. Selector_init example_env PNone None None (Some PNone) None None = Inr s)"
proof -
  have a: "Selector_init example_env PNone None None None None None = Inl ValueError"
    using constructor_fails_exactly [of example_env PNone None None None None None] by simp
  have "kind_of (U ''pdf'') = None" by (simp add: kind_of_def U_def)
  then have b: "Selector_init example_env (PStr (U ''<p/>'')) (Some (U ''pdf'')) None None None None
     = Inl ValueError"
    using constructor_fails_exactly
      [of example_env "PStr (U ''<p/>'')" "Some (U ''pdf'')" None None None None]
    by simp
  have c: "Selector_init example_env (PBytes (U ''<p/>'')) None None None None None = Inl TypeError"
    using constructor_fails_exactly [of example_env "PBytes (U ''<p/>'')" None None None None None]
    by (simp add: str_value_def)
  have "str_value (PStr deep_json) = Some deep_json \<and> RecursionError \<noteq> ValueError"
    by (simp add: str_value_def)
  then have f: "\<exists>err. Selector_init example_env (PStr deep_json) (Some (U ''json'')) None None
      None None = Inl err"
    using constructor_fails_exactly
      [of example_env "PStr deep_json" "Some (U ''json'')" None None None None]
      example_loads_deep
    by blast
  have "\<not> list_ex is_surrogate (U ''<p/>'')" by (simp add: is_surrogate_def U_def)
  then have "\<not> (\<exists>err. Selector_init example_env (PStr (U ''<p/>'')) None None None None None
                = Inl err)"
    using constructor_fails_exactly [of example_env "PStr (U ''<p/>'')" None None None None None]
    by (simp add: str_value_def)
  then have d: "\<exists>s. Selector_init example_env (PStr (U ''<p/>'')) None None None None None = Inr s"
    by (cases "Selector_init example_env (PStr (U ''<p/>'')) None None None None None") auto
  have "\<not> (\<exists>err. Selector_init example_env PNone None None (Some PNone) None None = Inl err)"
    using constructor_fails_exactly [of example_env PNone None None "Some PNone" None None]
    by (simp add: str_value_def)
  then have e: "\<exists>s. Selector_init example_env PNone None None (Some PNone) None None = Inr s"
    by (cases "Selector_init example_env PNone None None (Some PNone) None None") auto
  show ?thesis using a b c d e f by blast
qed

end
